theory Spec2Isabelle
  imports Main
begin

section \<open>Data model of the find-all-references provider\<close>

text \<open>
  The development embeds \<^verbatim>\<open>findAllReferencesProvider.ts\<close>: the method
  \<^verbatim>\<open>FindAllReferencesProvider.provideReferences\<close> and the helper
  \<^verbatim>\<open>getRelativePathFromUri\<close>.

  JavaScript numbers that hold line numbers, columns and lengths are integers; the
  components of a position are natural numbers (the language server protocol's
  unsigned integers) and the window arithmetic, which subtracts, is done on \<open>int\<close>.
\<close>

text \<open>
  Modelled from the spec: the enumeration \<^verbatim>\<open>ReferenceType\<close> is declared in
  \<^verbatim>\<open>references.ts\<close>, which is not among the sources. The spec names the
  classifications \<open>Confirmed\<close>, \<open>Candidate\<close>, \<open>NotAReference\<close> and leaves the rest
  open; the provider only compares with \<open>Confirmed\<close>.
\<close>

datatype ReferenceType = Confirmed | Candidate | NotAReference | OtherReferenceType nat

text \<open>
  Modelled from the spec: \<^verbatim>\<open>CancellationSender\<close> is declared in
  \<^verbatim>\<open>references.ts\<close> as well; the provider uses its member \<open>NewRequest\<close> only.
\<close>

datatype CancellationSender = NewRequest

record Position =
  line :: nat
  character :: nat

record ReferenceInfo =
  "file" :: string
  position :: Position
  type :: ReferenceType

record ReferencesResult =
  referenceInfos :: "ReferenceInfo list"
  "text" :: string
  isCanceled :: bool

record TextDocumentIdentifier =
  uri :: string

record ReferencesParams =
  newName :: string
  position :: Position
  textDocument :: TextDocumentIdentifier

text \<open>
  A \<^verbatim>\<open>vscode.Uri\<close> is represented by the string that its \<^verbatim>\<open>toString()\<close>
  returns. How \<^verbatim>\<open>Uri.file\<close> turns a file-system path into such a string belongs
  to the editor's library, so it is a parameter of the model (\<open>Uri_file\<close> below).
\<close>

type_synonym Uri = string

record Range =
  rangeStart :: Position
  rangeEnd :: Position

record Location =
  uri :: Uri
  range :: Range

record Refs =
  snippet :: string
  relativePath :: string
  startLine :: int
  endLine :: int
  score :: int

text \<open>
  Everything that can be thrown inside \<^verbatim>\<open>provideReferences\<close>: what the awaited
  request rejects with (a \<^verbatim>\<open>ResponseError\<close> carrying its code, or any other
  value), the failure of \<^verbatim>\<open>fs.readFileSync\<close> on a path that cannot be read, and
  the \<^verbatim>\<open>TypeError\<close> of \<^verbatim>\<open>workspaceFolders![0].uri\<close> when there is no
  workspace folder.
\<close>

datatype error =
    ResponseError int
  | NonResponseError string
  | ReadFileError string
  | TypeError

text \<open>
  The calls the provider makes on its collaborators, in the order it makes them. The
  trace is the provider's whole effect on the shared reference session
  (\<^verbatim>\<open>workspaceReferences\<close>), on the two cancellation subscriptions and on the
  environment variable that carries the snippets.
\<close>

datatype event =
    CancelCurrentReferenceRequest CancellationSender
  | TokenListenerSubscribed
  | RequestCanceledListenerSubscribed
  | SendRequest ReferencesParams
  | ResetProgressBar
  | TokenListenerDisposed
  | RequestCanceledListenerDisposed
  | SetReferencedSymbolSnippet "Refs list"
  | ReferencesReset
  | PanelViewShown ReferencesResult

text \<open>
  The surroundings of one call. \<open>RequestCancelled\<close> and \<open>ServerCancelled\<close> are the
  two error codes imported from \<^verbatim>\<open>protocolFilter.ts\<close> (not among the sources),
  \<open>sendRequest\<close> is how the awaited request settles (rejected with an error, or
  resolved with a response that may be undefined), the two booleans say whether the
  caller's token and the session's broadcast fired while the request was pending (each
  listener cancels the local \<^verbatim>\<open>cancelSource\<close>), and \<open>readFileSync\<close> is the file
  system.
\<close>

record Env =
  RequestCancelled :: int
  ServerCancelled :: int
  Uri_file :: "string \<Rightarrow> Uri"
  workspaceFolders :: "Uri list option"
  readFileSync :: "string \<rightharpoonup> string"
  sendRequest :: "error + ReferencesResult option"
  tokenCancellationRequested :: bool
  referencesCancellationRequested :: bool

datatype outcome = Threw error | Returned "Location list option"

section \<open>String and array primitives of the host language\<close>

text \<open>\<^verbatim>\<open>s.split('\n')\<close>: the pieces between line feeds; never empty.\<close>

fun split_newline :: "string \<Rightarrow> string list" where
  "split_newline [] = [[]]"
| "split_newline (c # cs) =
     (if c = CHR 0x0A then [] # split_newline cs
      else (case split_newline cs of
              [] \<Rightarrow> [[c]]
            | l # ls \<Rightarrow> (c # l) # ls))"

text \<open>\<^verbatim>\<open>a.join('\n')\<close>.\<close>

fun join_newline :: "string list \<Rightarrow> string" where
  "join_newline [] = []"
| "join_newline [l] = l"
| "join_newline (l # ls) = l @ CHR 0x0A # join_newline ls"

text \<open>
  \<^verbatim>\<open>a.slice(start, end)\<close>: a negative index counts from the end, both indices are
  clamped to the array, and an end before the start gives the empty array.
\<close>

definition slice :: "int \<Rightarrow> int \<Rightarrow> 'a list \<Rightarrow> 'a list" where
  "slice start end' xs =
     (let len = int (length xs);
          k = (if start < 0 then max (len + start) 0 else min start len);
          final = (if end' < 0 then max (len + end') 0 else min end' len)
      in take (nat (max (final - k) 0)) (drop (nat k) xs))"

text \<open>\<^verbatim>\<open>s.substring(n)\<close> for \<open>n \<ge> 0\<close>: the empty string when \<open>n\<close> is past the end.\<close>

definition substring :: "nat \<Rightarrow> string \<Rightarrow> string" where
  "substring n s = drop n s"

section \<open>The provider\<close>

definition getRelativePathFromUri :: "Env \<Rightarrow> Uri \<Rightarrow> string \<Rightarrow> string" where
  "getRelativePathFromUri env basePath f =
     (let base2 = Uri_file env f;
          relativePath = substring (length basePath + 1) base2
      in relativePath)"

definition SnippetWindowSize :: int where
  "SnippetWindowSize = 20"

text \<open>
  The variables the \<^verbatim>\<open>forEach\<close> callback updates: the two arrays it pushes to
  and the cursor \<^verbatim>\<open>preventOverlappingSnippet\<close>.
\<close>

record LoopState =
  locationsResult :: "Location list"
  refs :: "Refs list"
  preventOverlappingSnippet :: int

text \<open>
  The body of the callback (lines 70 to 87) for one \<open>referenceInfo\<close>; \<open>responseText\<close>
  is \<^verbatim>\<open>response.text\<close>. The location is pushed before the file is read, the file
  is read for every confirmed hit, and the workspace folder is looked at only when a
  snippet is pushed.
\<close>

definition forEachBody :: "Env \<Rightarrow> string \<Rightarrow> ReferenceInfo \<Rightarrow> LoopState \<Rightarrow> error + LoopState" where
  "forEachBody env responseText referenceInfo st =
     (if type referenceInfo = Confirmed then
        let u = Uri_file env (file referenceInfo);
            p = ReferenceInfo.position referenceInfo;
            r = \<lparr>rangeStart = \<lparr>line = line p, character = character p\<rparr>,
                 rangeEnd = \<lparr>line = line p, character = character p + length responseText\<rparr>\<rparr>;
            st1 = st\<lparr>locationsResult := locationsResult st @ [\<lparr>uri = u, range = r\<rparr>]\<rparr>
        in (case readFileSync env (file referenceInfo) of
              None \<Rightarrow> Inl (ReadFileError (file referenceInfo))
            | Some fileContent \<Rightarrow>
                let fileContentLines = split_newline fileContent;
                    startLine' = max 0 (int (line p) - SnippetWindowSize div 2);
                    endLine' = min (int (length fileContentLines)) (int (line p) + SnippetWindowSize div 2);
                    referenceTextSnippet = join_newline (slice startLine' endLine' fileContentLines)
                in if startLine' > preventOverlappingSnippet st1 then
                     (case workspaceFolders env of
                        Some (folder # _) \<Rightarrow>
                          Inr (st1\<lparr>refs := refs st1 @
                                       [\<lparr>snippet = referenceTextSnippet,
                                         relativePath = getRelativePathFromUri env folder (file referenceInfo),
                                         startLine = startLine', endLine = endLine', score = 1\<rparr>],
                                    preventOverlappingSnippet := endLine'\<rparr>)
                      | _ \<Rightarrow> Inl TypeError)
                   else Inr st1)
      else Inr st)"

text \<open>\<^verbatim>\<open>referenceInfos.forEach(...)\<close>: the callback on each element in order; a throw ends it.\<close>

fun forEach :: "Env \<Rightarrow> string \<Rightarrow> ReferenceInfo list \<Rightarrow> LoopState \<Rightarrow> error + LoopState" where
  "forEach env responseText [] st = Inr st"
| "forEach env responseText (referenceInfo # rest) st =
     (case forEachBody env responseText referenceInfo st of
        Inl e \<Rightarrow> Inl e
      | Inr st' \<Rightarrow> forEach env responseText rest st')"

definition initialLoopState :: LoopState where
  "initialLoopState = \<lparr>locationsResult = [], refs = [], preventOverlappingSnippet = 0\<rparr>"

text \<open>\<^verbatim>\<open>workspaceReferences.resetReferences()\<close> as the provider sees it: one call.\<close>

definition resetReferences :: "event list" where
  "resetReferences = [ReferencesReset]"

text \<open>
  \<^verbatim>\<open>workspaceReferences.showResultsInPanelView(response)\<close> as the provider sees
  it: one call. The method belongs to \<^verbatim>\<open>references.ts\<close>, which is not among
  the sources, and what it does inside the session is not modelled (the provider's comment
  at line 91 notes that it calls \<^verbatim>\<open>resetReferences\<close>).
\<close>

definition showResultsInPanelView :: "ReferencesResult \<Rightarrow> event list" where
  "showResultsInPanelView response = [PanelViewShown response]"

text \<open>The test of the \<^verbatim>\<open>catch\<close> clause (line 45).\<close>

definition isCancellation :: "Env \<Rightarrow> error \<Rightarrow> bool" where
  "isCancellation env e =
     (case e of
        ResponseError code \<Rightarrow> code = RequestCancelled env \<or> code = ServerCancelled env
      | _ \<Rightarrow> False)"

text \<open>Lines 25 to 43: supersede the running query, subscribe both listeners, send the request.\<close>

definition beforeResponse :: "Uri \<Rightarrow> Position \<Rightarrow> event list" where
  "beforeResponse documentUri pos =
     [CancelCurrentReferenceRequest NewRequest,
      TokenListenerSubscribed,
      RequestCanceledListenerSubscribed,
      SendRequest \<lparr>newName = [],
                   position = \<lparr>line = line pos, character = character pos\<rparr>,
                   textDocument = \<lparr>TextDocumentIdentifier.uri = documentUri\<rparr>\<rparr>]"

text \<open>
  Lines 51 to 57, run before the result is looked at: the progress bar is reset, both
  listeners are disposed and the environment variable is set to the empty array.
\<close>

definition cleared :: "event list" where
  "cleared = [ResetProgressBar, TokenListenerDisposed, RequestCanceledListenerDisposed,
              SetReferencedSymbolSnippet []]"

text \<open>
  Lines 51 to 98, reached when the request resolved or was rejected with a recognised
  cancellation: \<open>response\<close> is the variable of that name (undefined after a rejection)
  and \<open>cancelled\<close> the flag set in the \<^verbatim>\<open>catch\<close> clause. A throw inside the
  loop leaves the function after the cleanup and before the second write of the
  environment variable.
\<close>

definition processResult :: "Env \<Rightarrow> ReferencesResult option \<Rightarrow> bool \<Rightarrow> outcome \<times> event list" where
  "processResult env response cancelled =
     (let isCancellationRequested = (tokenCancellationRequested env \<or> referencesCancellationRequested env)
      in if isCancellationRequested \<or> cancelled \<or> (case response of None \<Rightarrow> False | Some r \<Rightarrow> isCanceled r) then
           (Returned None, cleared @ resetReferences)
         else (case response of
                 None \<Rightarrow> (Returned (Some []), cleared @ resetReferences)
               | Some r \<Rightarrow>
                   if length (referenceInfos r) > 0 then
                     (case forEach env (text r) (referenceInfos r) initialLoopState of
                        Inl e \<Rightarrow> (Threw e, cleared)
                      | Inr st \<Rightarrow>
                          (Returned (Some (locationsResult st)),
                           cleared @ [SetReferencedSymbolSnippet (refs st)] @ showResultsInPanelView r))
                   else (Returned (Some []), cleared @ resetReferences)))"

text \<open>
  \<^verbatim>\<open>provideReferences(document, position, context, token)\<close> once
  \<^verbatim>\<open>this.client.ready\<close> has resolved: the outcome of the call and the trace of its
  effects. A rejection that is not a recognised cancellation is rethrown from the
  \<^verbatim>\<open>catch\<close> clause, so nothing after line 49 runs.
\<close>

definition provideReferences :: "Env \<Rightarrow> Uri \<Rightarrow> Position \<Rightarrow> outcome \<times> event list" where
  "provideReferences env documentUri pos =
     (let sent = beforeResponse documentUri pos
      in case sendRequest env of
           Inl e \<Rightarrow>
             if isCancellation env e then
               (let (res, evs) = processResult env None True in (res, sent @ evs))
             else (Threw e, sent)
         | Inr response \<Rightarrow>
             (let (res, evs) = processResult env response False in (res, sent @ evs)))"

text \<open>The snippet records a call leaves in the environment variable: what it stored last.\<close>

fun publishedSnippets :: "event list \<Rightarrow> Refs list" where
  "publishedSnippets [] = []"
| "publishedSnippets (SetReferencedSymbolSnippet rs # evs) =
     (if list_ex (\<lambda>e. case e of SetReferencedSymbolSnippet _ \<Rightarrow> True | _ \<Rightarrow> False) evs
      then publishedSnippets evs else rs)"
| "publishedSnippets (_ # evs) = publishedSnippets evs"

section \<open>The spec's statements, for comparison with the code\<close>

text \<open>The lines of a file as the callback sees them (lines 76 and 78); no lines when the read fails.\<close>

definition linesOf :: "Env \<Rightarrow> string \<Rightarrow> string list" where
  "linesOf env f = (case readFileSync env f of None \<Rightarrow> [] | Some fileContent \<Rightarrow> split_newline fileContent)"

text \<open>
  Stated from the spec (4.3, step 1): the location of a hit is its file's URI with the
  range from the hit's position to that position plus the length of the matched text, on
  the same line.
\<close>

definition specLocation :: "Env \<Rightarrow> string \<Rightarrow> ReferenceInfo \<Rightarrow> Location" where
  "specLocation env matchedText h =
     \<lparr>uri = Uri_file env (file h),
      range = \<lparr>rangeStart = ReferenceInfo.position h,
               rangeEnd = \<lparr>line = line (ReferenceInfo.position h),
                          character = character (ReferenceInfo.position h) + length matchedText\<rparr>\<rparr>\<rparr>"

text \<open>
  Stated from the spec (4.3, step 3): the window of a hit at line \<open>L\<close> in a file of
  \<open>N\<close> lines, ten lines to each side, clamped to the file.
\<close>

definition specWindow :: "nat \<Rightarrow> nat \<Rightarrow> int \<times> int" where
  "specWindow L N = (max 0 (int L - 10), min (int N) (int L + 10))"

text \<open>
  Stated from the spec (4.3, step 4): a window is emitted only when it starts strictly
  after the cursor, and the cursor then moves to the window's end.
\<close>

fun specEmit :: "int \<Rightarrow> (int \<times> int) list \<Rightarrow> (int \<times> int) list" where
  "specEmit cursor [] = []"
| "specEmit cursor ((s, e) # ws) =
     (if s > cursor then (s, e) # specEmit e ws else specEmit cursor ws)"

text \<open>The window of a hit in the file as it is read, and the window a record carries.\<close>

definition hitWindow :: "Env \<Rightarrow> ReferenceInfo \<Rightarrow> int \<times> int" where
  "hitWindow env h = specWindow (line (ReferenceInfo.position h)) (length (linesOf env (file h)))"

definition window :: "Refs \<Rightarrow> int \<times> int" where
  "window r = (startLine r, endLine r)"

section \<open>Concrete inputs\<close>

text \<open>
  The inputs at which the theorems below are evaluated. The environment uses the
  protocol's codes \<open>-32800\<close> and \<open>-32802\<close> for the two cancellations, file URIs
  of the form \<^verbatim>\<open>file://\<close> followed by the path, and the workspace folder
  \<^verbatim>\<open>file:///w\<close>.
\<close>

definition exampleEnv :: "(string \<rightharpoonup> string) \<Rightarrow> (error + ReferencesResult option) \<Rightarrow> bool \<Rightarrow> bool \<Rightarrow> Env" where
  "exampleEnv fs settled tokenFired broadcastFired =
     \<lparr>RequestCancelled = - 32800, ServerCancelled = - 32802,
      Uri_file = (\<lambda>path. ''file://'' @ path),
      workspaceFolders = Some [''file:///w''],
      readFileSync = fs,
      sendRequest = settled,
      tokenCancellationRequested = tokenFired,
      referencesCancellationRequested = broadcastFired\<rparr>"

definition hit :: "ReferenceType \<Rightarrow> string \<Rightarrow> nat \<Rightarrow> nat \<Rightarrow> ReferenceInfo" where
  "hit ty f l c = \<lparr>file = f, position = \<lparr>line = l, character = c\<rparr>, type = ty\<rparr>"

definition queryUri :: Uri where
  "queryUri = ''file:///w/a.c''"

definition queryPosition :: Position where
  "queryPosition = \<lparr>line = 5, character = 2\<rparr>"

definition hundredLines :: string where
  "hundredLines = concat (replicate 99 (''x'' @ [CHR 0x0A])) @ ''x''"

definition fiveLines :: string where
  "fiveLines = [CHR ''a'', CHR 0x0A, CHR ''b'', CHR 0x0A, CHR ''c'', CHR 0x0A, CHR ''d'', CHR 0x0A, CHR ''e'']"

definition scenarioResponse :: "string \<Rightarrow> ReferencesResult" where
  "scenarioResponse matchedText =
     \<lparr>referenceInfos = [hit Confirmed ''/w/a.c'' 5 2, hit Confirmed ''/w/a.c'' 8 4, hit Confirmed ''/w/a.c'' 40 0],
      text = matchedText, isCanceled = False\<rparr>"

definition scenarioEnv :: "string \<Rightarrow> Env" where
  "scenarioEnv matchedText =
     exampleEnv [''/w/a.c'' \<mapsto> hundredLines] (Inr (Some (scenarioResponse matchedText))) False False"

definition rethrowEnv :: "bool \<Rightarrow> Env" where
  "rethrowEnv tokenFired = exampleEnv Map.empty (Inl (ResponseError (- 32603))) tokenFired False"

definition staleResponse :: ReferencesResult where
  "staleResponse =
     \<lparr>referenceInfos = [hit Confirmed ''/w/a.c'' 50 0, hit Confirmed ''/w/a.c'' 16 0],
      text = ''foo'', isCanceled = False\<rparr>"

definition staleEnv :: Env where
  "staleEnv = exampleEnv [''/w/a.c'' \<mapsto> fiveLines] (Inr (Some staleResponse)) False False"

definition clusterResponse :: ReferencesResult where
  "clusterResponse =
     \<lparr>referenceInfos = [hit Confirmed ''/w/a.c'' 15 1, hit Candidate ''/w/a.c'' 20 0,
                        hit Confirmed ''/w/a.c'' 40 0, hit Confirmed ''/w/b.c'' 45 3,
                        hit NotAReference ''/w/a.c'' 60 0, hit Confirmed ''/w/a.c'' 80 7],
      text = ''foo'', isCanceled = False\<rparr>"

definition clusterEnv :: "bool \<Rightarrow> Env" where
  "clusterEnv tokenFired =
     exampleEnv [''/w/a.c'' \<mapsto> hundredLines, ''/w/b.c'' \<mapsto> hundredLines]
       (Inr (Some clusterResponse)) tokenFired False"

definition candidatesResponse :: "ReferenceInfo list \<Rightarrow> bool \<Rightarrow> ReferencesResult" where
  "candidatesResponse hits flag = \<lparr>referenceInfos = hits, text = ''foo'', isCanceled = flag\<rparr>"


definition noFolderEnv :: Env where
  "noFolderEnv =
     (exampleEnv [''/w/a.c'' \<mapsto> hundredLines]
        (Inr (Some (candidatesResponse
                      [hit Confirmed ''/w/a.c'' 5 2, hit Candidate ''/w/a.c'' 40 0] False)))
        False False)\<lparr>workspaceFolders := None\<rparr>"

section \<open>The callback and the loop\<close>

lemma split_newline_nonempty: "split_newline s \<noteq> []"
  by (induction s) (auto split: list.splits)

lemma forEachBody_other:
  "type h \<noteq> Confirmed \<Longrightarrow> forEachBody env t h st = Inr st"
  by (simp add: forEachBody_def)

lemma forEachBody_unreadable:
  "type h = Confirmed \<Longrightarrow> readFileSync env (file h) = None \<Longrightarrow>
   forEachBody env t h st = Inl (ReadFileError (file h))"
  by (simp add: forEachBody_def Let_def)

lemma forEachBody_suppressed:
  "type h = Confirmed \<Longrightarrow> readFileSync env (file h) = Some c \<Longrightarrow>
   \<not> fst (hitWindow env h) > preventOverlappingSnippet st \<Longrightarrow>
   forEachBody env t h st = Inr (st\<lparr>locationsResult := locationsResult st @ [specLocation env t h]\<rparr>)"
  by (simp add: forEachBody_def Let_def hitWindow_def specWindow_def linesOf_def
      SnippetWindowSize_def specLocation_def)

lemma forEachBody_emitted:
  "type h = Confirmed \<Longrightarrow> readFileSync env (file h) = Some c \<Longrightarrow>
   fst (hitWindow env h) > preventOverlappingSnippet st \<Longrightarrow>
   workspaceFolders env = Some (folder # others) \<Longrightarrow>
   forEachBody env t h st =
     Inr (st\<lparr>locationsResult := locationsResult st @ [specLocation env t h],
             refs := refs st @
               [\<lparr>snippet = join_newline (slice (fst (hitWindow env h)) (snd (hitWindow env h)) (split_newline c)),
                 relativePath = getRelativePathFromUri env folder (file h),
                 startLine = fst (hitWindow env h), endLine = snd (hitWindow env h), score = 1\<rparr>],
             preventOverlappingSnippet := snd (hitWindow env h)\<rparr>)"
  by (simp add: forEachBody_def Let_def hitWindow_def specWindow_def linesOf_def
      SnippetWindowSize_def specLocation_def)

lemma forEachBody_no_folder:
  "type h = Confirmed \<Longrightarrow> readFileSync env (file h) = Some c \<Longrightarrow>
   fst (hitWindow env h) > preventOverlappingSnippet st \<Longrightarrow>
   workspaceFolders env = None \<or> workspaceFolders env = Some [] \<Longrightarrow>
   forEachBody env t h st = Inl TypeError"
  by (auto simp add: forEachBody_def Let_def hitWindow_def specWindow_def linesOf_def
      SnippetWindowSize_def)

lemma forEachBody_cases:
  assumes "forEachBody env t h st = Inr st'"
  shows "(type h \<noteq> Confirmed \<and> st' = st)
       \<or> (type h = Confirmed \<and> file h \<in> dom (readFileSync env)
           \<and> \<not> fst (hitWindow env h) > preventOverlappingSnippet st
           \<and> st' = st\<lparr>locationsResult := locationsResult st @ [specLocation env t h]\<rparr>)
       \<or> (type h = Confirmed \<and> file h \<in> dom (readFileSync env)
           \<and> fst (hitWindow env h) > preventOverlappingSnippet st
           \<and> (\<exists>rec. window rec = hitWindow env h
                \<and> st' = st\<lparr>locationsResult := locationsResult st @ [specLocation env t h],
                           refs := refs st @ [rec],
                           preventOverlappingSnippet := snd (hitWindow env h)\<rparr>))"
proof (cases "type h = Confirmed")
  case False
  with assms show ?thesis by (simp add: forEachBody_other)
next
  case conf: True
  show ?thesis
  proof (cases "readFileSync env (file h)")
    case None
    with conf assms show ?thesis by (simp add: forEachBody_unreadable)
  next
    case (Some c)
    show ?thesis
    proof (cases "fst (hitWindow env h) > preventOverlappingSnippet st")
      case False
      with conf Some assms show ?thesis by (auto simp add: forEachBody_suppressed)
    next
      case gt: True
      show ?thesis
      proof (cases "workspaceFolders env")
        case None
        with conf Some gt assms show ?thesis by (simp add: forEachBody_no_folder)
      next
        case (Some fs)
        note fs = this
        show ?thesis
        proof (cases fs)
          case Nil
          with conf \<open>readFileSync env (file h) = Some c\<close> gt fs assms show ?thesis
            by (simp add: forEachBody_no_folder)
        next
          case (Cons folder others)
          define rec where "rec =
             \<lparr>snippet = join_newline (slice (fst (hitWindow env h)) (snd (hitWindow env h)) (split_newline c)),
              relativePath = getRelativePathFromUri env folder (file h),
              startLine = fst (hitWindow env h), endLine = snd (hitWindow env h), score = 1\<rparr>"
          have w: "window rec = hitWindow env h"
            by (simp add: rec_def window_def)
          from Cons conf \<open>readFileSync env (file h) = Some c\<close> gt fs assms
          have "st' = st\<lparr>locationsResult := locationsResult st @ [specLocation env t h],
             refs := refs st @ [rec],
             preventOverlappingSnippet := snd (hitWindow env h)\<rparr>"
            using forEachBody_emitted [of h env c st folder others t] by (simp add: rec_def)
          with w conf \<open>readFileSync env (file h) = Some c\<close> gt show ?thesis
            by blast
        qed
      qed
    qed
  qed
qed

lemma forEach_locations:
  "forEach env t hs st = Inr st' \<Longrightarrow>
   locationsResult st' =
     locationsResult st @ map (specLocation env t) (filter (\<lambda>h. type h = Confirmed) hs)"
proof (induction hs arbitrary: st)
  case Nil
  then show ?case by simp
next
  case (Cons h hs)
  from Cons.prems obtain st1 where
    body: "forEachBody env t h st = Inr st1" and rest: "forEach env t hs st1 = Inr st'"
    by (auto split: sum.splits)
  from forEachBody_cases [OF body] Cons.IH [OF rest] show ?case
    by auto
qed

lemma forEach_windows:
  "forEach env t hs st = Inr st' \<Longrightarrow>
   map window (refs st') =
     map window (refs st) @
     specEmit (preventOverlappingSnippet st) (map (hitWindow env) (filter (\<lambda>h. type h = Confirmed) hs))"
proof (induction hs arbitrary: st)
  case Nil
  then show ?case by simp
next
  case (Cons h hs)
  from Cons.prems obtain st1 where
    body: "forEachBody env t h st = Inr st1" and rest: "forEach env t hs st1 = Inr st'"
    by (auto split: sum.splits)
  obtain s e where se: "hitWindow env h = (s, e)"
    by (cases "hitWindow env h")
  from forEachBody_cases [OF body] Cons.IH [OF rest] se show ?case
    by auto
qed

lemma forEach_returns:
  assumes "workspaceFolders env = Some (folder # others)"
  shows "(\<And>h. h \<in> set hs \<Longrightarrow> type h = Confirmed \<Longrightarrow> file h \<in> dom (readFileSync env)) \<Longrightarrow>
         \<exists>st'. forEach env t hs st = Inr st'"
proof (induction hs arbitrary: st)
  case Nil
  then show ?case by simp
next
  case (Cons h hs)
  have "\<exists>st1. forEachBody env t h st = Inr st1"
  proof (cases "type h = Confirmed")
    case False
    then show ?thesis by (simp add: forEachBody_other)
  next
    case True
    with Cons.prems [of h] obtain c where c: "readFileSync env (file h) = Some c"
      by auto
    show ?thesis
    proof (cases "fst (hitWindow env h) > preventOverlappingSnippet st")
      case True
      with \<open>type h = Confirmed\<close> c assms show ?thesis
        by (simp add: forEachBody_emitted)
    next
      case False
      with \<open>type h = Confirmed\<close> c show ?thesis
        by (simp add: forEachBody_suppressed)
    qed
  qed
  then obtain st1 where body: "forEachBody env t h st = Inr st1" ..
  from Cons.IH [of st1] Cons.prems obtain st' where "forEach env t hs st1 = Inr st'"
    by auto
  with body show ?case by simp
qed


lemma hitWindow_end_nonneg: "0 \<le> snd (hitWindow env h)"
  by (simp add: hitWindow_def specWindow_def)

lemma forEach_cursor_nonneg:
  "forEach env t hs st = Inr st' \<Longrightarrow> 0 \<le> preventOverlappingSnippet st \<Longrightarrow>
   0 \<le> preventOverlappingSnippet st'"
proof (induction hs arbitrary: st)
  case Nil
  then show ?case by simp
next
  case (Cons h hs)
  from Cons.prems obtain st1 where
    body: "forEachBody env t h st = Inr st1" and rest: "forEach env t hs st1 = Inr st'"
    by (auto split: sum.splits)
  from forEachBody_cases [OF body] Cons.prems(2) have "0 \<le> preventOverlappingSnippet st1"
    using hitWindow_end_nonneg [of env h] by auto
  with Cons.IH [OF rest] show ?case .
qed

section \<open>The cursor rule of the spec\<close>

lemma specEmit_length: "length (specEmit c ws) \<le> length ws"
  by (induction c ws rule: specEmit.induct) auto

lemma specEmit_above_cursor: "w \<in> set (specEmit c ws) \<Longrightarrow> (\<And>s e. (s, e) \<in> set ws \<Longrightarrow> s \<le> e) \<Longrightarrow> c < fst w"
proof (induction c ws rule: specEmit.induct)
  case (1 cursor)
  then show ?case by simp
next
  case (2 cursor s e ws)
  show ?case
  proof (cases "s > cursor")
    case True
    have se: "s \<le> e" using "2.prems"(2) [of s e] by simp
    from True "2.prems"(1) have "w = (s, e) \<or> w \<in> set (specEmit e ws)" by simp
    then show ?thesis
    proof
      assume "w = (s, e)" with True show ?thesis by simp
    next
      assume "w \<in> set (specEmit e ws)"
      with "2.IH"(1) [OF True] "2.prems"(2) have "e < fst w" by simp
      with se True show ?thesis by simp
    qed
  next
    case False
    with "2.prems" "2.IH"(2) show ?thesis by simp
  qed
qed

lemma specEmit_sorted:
  "(\<And>s e. (s, e) \<in> set ws \<Longrightarrow> s \<le> e) \<Longrightarrow>
   sorted_wrt (\<lambda>a b. snd a < fst b \<and> fst a < fst b) (specEmit c ws)"
proof (induction c ws rule: specEmit.induct)
  case (1 cursor)
  then show ?case by simp
next
  case (2 cursor s e ws)
  show ?case
  proof (cases "s > cursor")
    case True
    have se: "s \<le> e" using "2.prems" [of s e] by simp
    have tail: "sorted_wrt (\<lambda>a b. snd a < fst b \<and> fst a < fst b) (specEmit e ws)"
      using "2.IH"(1) [OF True] "2.prems" by simp
    have "\<And>w. w \<in> set (specEmit e ws) \<Longrightarrow> e < fst w"
      using specEmit_above_cursor [of _ e ws] "2.prems" by simp
    with se tail True show ?thesis by fastforce
  next
    case False
    with "2.prems" "2.IH"(2) show ?thesis by simp
  qed
qed

section \<open>The paths through the provider\<close>

lemma provideReferences_rethrow:
  "sendRequest env = Inl e \<Longrightarrow> \<not> isCancellation env e \<Longrightarrow>
   provideReferences env d p = (Threw e, beforeResponse d p)"
  by (simp add: provideReferences_def)

lemma provideReferences_cancelled:
  assumes "\<And>e. sendRequest env = Inl e \<Longrightarrow> isCancellation env e"
    and "tokenCancellationRequested env \<or> referencesCancellationRequested env
         \<or> (\<exists>e. sendRequest env = Inl e)
         \<or> (\<exists>r. sendRequest env = Inr (Some r) \<and> isCanceled r)"
  shows "provideReferences env d p =
           (Returned None, beforeResponse d p @ cleared @ [ReferencesReset])"
proof (cases "sendRequest env")
  case (Inl e)
  with assms(1) show ?thesis
    by (simp add: provideReferences_def processResult_def resetReferences_def cleared_def)
next
  case (Inr response)
  with assms(2) show ?thesis
    by (auto simp add: provideReferences_def processResult_def resetReferences_def cleared_def)
qed

lemma provideReferences_no_hits:
  assumes "sendRequest env = Inr (Some r)"
    and "\<not> tokenCancellationRequested env" and "\<not> referencesCancellationRequested env"
    and "\<not> isCanceled r" and "referenceInfos r = []"
  shows "provideReferences env d p =
           (Returned (Some []), beforeResponse d p @ cleared @ [ReferencesReset])"
  using assms
  by (simp add: provideReferences_def processResult_def resetReferences_def cleared_def)

lemma provideReferences_completed:
  assumes "sendRequest env = Inr (Some r)"
    and "\<not> tokenCancellationRequested env" and "\<not> referencesCancellationRequested env"
    and "\<not> isCanceled r" and "referenceInfos r \<noteq> []"
    and "forEach env (text r) (referenceInfos r) initialLoopState = Inr st"
  shows "provideReferences env d p =
           (Returned (Some (locationsResult st)),
            beforeResponse d p @ cleared @
            [SetReferencedSymbolSnippet (refs st), PanelViewShown r])"
  using assms
  by (simp add: provideReferences_def processResult_def resetReferences_def cleared_def
      showResultsInPanelView_def)

lemma provideReferences_loop_throws:
  assumes "sendRequest env = Inr (Some r)"
    and "\<not> tokenCancellationRequested env" and "\<not> referencesCancellationRequested env"
    and "\<not> isCanceled r" and "referenceInfos r \<noteq> []"
    and "forEach env (text r) (referenceInfos r) initialLoopState = Inl e"
  shows "provideReferences env d p = (Threw e, beforeResponse d p @ cleared)"
  using assms
  by (simp add: provideReferences_def processResult_def cleared_def)

lemma publishedSnippets_cancelled:
  "publishedSnippets (beforeResponse d p @ cleared @ [ReferencesReset]) = []"
  by (simp add: beforeResponse_def cleared_def)

lemma publishedSnippets_completed:
  "publishedSnippets (beforeResponse d p @ cleared @
      [SetReferencedSymbolSnippet rs, PanelViewShown r]) = rs"
  by (simp add: beforeResponse_def cleared_def)

lemma publishedSnippets_thrown:
  "publishedSnippets (beforeResponse d p @ cleared) = []"
  by (simp add: beforeResponse_def cleared_def)

lemma provideReferences_answered:
  assumes "sendRequest env = Inr (Some r)"
    and "\<not> tokenCancellationRequested env" and "\<not> referencesCancellationRequested env"
    and "\<not> isCanceled r"
  shows "(\<exists>st. forEach env (text r) (referenceInfos r) initialLoopState = Inr st
            \<and> fst (provideReferences env d p) = Returned (Some (locationsResult st))
            \<and> publishedSnippets (snd (provideReferences env d p)) = refs st)
       \<or> (\<exists>e. forEach env (text r) (referenceInfos r) initialLoopState = Inl e
            \<and> fst (provideReferences env d p) = Threw e
            \<and> publishedSnippets (snd (provideReferences env d p)) = [])"
proof (cases "referenceInfos r = []")
  case True
  from provideReferences_no_hits [OF assms True, of d p] True show ?thesis
    by (simp add: publishedSnippets_cancelled initialLoopState_def)
next
  case False
  show ?thesis
  proof (cases "forEach env (text r) (referenceInfos r) initialLoopState")
    case (Inl e)
    from provideReferences_loop_throws [OF assms False Inl, of d p] Inl show ?thesis
      by (simp add: publishedSnippets_thrown)
  next
    case (Inr st)
    from provideReferences_completed [OF assms False Inr, of d p] Inr show ?thesis
      by (simp add: publishedSnippets_completed)
  qed
qed

section \<open>Facts about the concrete inputs\<close>

lemma example_fields:
  "RequestCancelled (exampleEnv fs s a b) = - 32800"
  "ServerCancelled (exampleEnv fs s a b) = - 32802"
  "Uri_file (exampleEnv fs s a b) path = ''file://'' @ path"
  "workspaceFolders (exampleEnv fs s a b) = Some [''file:///w'']"
  "readFileSync (exampleEnv fs s a b) = fs"
  "sendRequest (exampleEnv fs s a b) = s"
  "tokenCancellationRequested (exampleEnv fs s a b) = a"
  "referencesCancellationRequested (exampleEnv fs s a b) = b"
  by (simp_all add: exampleEnv_def)

lemma hit_fields:
  "type (hit ty f l c) = ty"
  "file (hit ty f l c) = f"
  "ReferenceInfo.position (hit ty f l c) = \<lparr>line = l, character = c\<rparr>"
  by (simp_all add: hit_def)

lemma hundredLines_length: "length (split_newline hundredLines) = 100"
  by code_simp

lemma hundredLines_linesOf:
  "fs f = Some hundredLines \<Longrightarrow> length (linesOf (exampleEnv fs s a b) f) = 100"
  by (simp add: linesOf_def example_fields hundredLines_length)

lemma scenarioEnv_facts:
  "readFileSync (scenarioEnv m) ''/w/a.c'' = Some hundredLines"
  "workspaceFolders (scenarioEnv m) = Some (''file:///w'' # [])"
  "Uri_file (scenarioEnv m) path = ''file://'' @ path"
  by (simp_all add: scenarioEnv_def example_fields)

lemma clusterEnv_returns:
  "fst (provideReferences (clusterEnv False) queryUri queryPosition) =
     Returned (Some
       [\<lparr>uri = ''file:///w/a.c'',
         range = \<lparr>rangeStart = \<lparr>line = 15, character = 1\<rparr>, rangeEnd = \<lparr>line = 15, character = 4\<rparr>\<rparr>\<rparr>,
        \<lparr>uri = ''file:///w/a.c'',
         range = \<lparr>rangeStart = \<lparr>line = 40, character = 0\<rparr>, rangeEnd = \<lparr>line = 40, character = 3\<rparr>\<rparr>\<rparr>,
        \<lparr>uri = ''file:///w/b.c'',
         range = \<lparr>rangeStart = \<lparr>line = 45, character = 3\<rparr>, rangeEnd = \<lparr>line = 45, character = 6\<rparr>\<rparr>\<rparr>,
        \<lparr>uri = ''file:///w/a.c'',
         range = \<lparr>rangeStart = \<lparr>line = 80, character = 7\<rparr>, rangeEnd = \<lparr>line = 80, character = 10\<rparr>\<rparr>\<rparr>])"
  by code_simp

lemma noFolderEnv_returns:
  "fst (provideReferences noFolderEnv queryUri queryPosition) =
     Returned (Some
       [\<lparr>uri = ''file:///w/a.c'',
         range = \<lparr>rangeStart = \<lparr>line = 5, character = 2\<rparr>, rangeEnd = \<lparr>line = 5, character = 5\<rparr>\<rparr>\<rparr>])"
  by code_simp

lemma clusterEnv_facts:
  "sendRequest (clusterEnv False) = Inr (Some clusterResponse)"
  "\<not> tokenCancellationRequested (clusterEnv False)"
  "\<not> referencesCancellationRequested (clusterEnv False)"
  "\<not> isCanceled clusterResponse"
  "\<forall>h \<in> set (referenceInfos clusterResponse).
      type h = Confirmed \<longrightarrow> file h \<in> dom (readFileSync (clusterEnv False))"
  "workspaceFolders (clusterEnv False) = Some (''file:///w'' # [])"
  by (simp_all add: clusterEnv_def example_fields clusterResponse_def hit_fields)

section \<open>The claims\<close>

text \<open>
  C1, as amended. Three confirmed hits at lines 5, 8 and 40 of a file of 100 lines,
  whatever the matched text: the provider returns the three locations, in order, and
  leaves a single snippet record, the one of the hit at line 40 with window
  \<open>[30, 50)\<close>. The hits at lines 5 and 8 have the windows \<open>[0, 15)\<close> and
  \<open>[0, 18)\<close>; their start \<open>0\<close> is not strictly greater than the cursor, which is
  still \<open>0\<close>, so neither is emitted.
\<close>

theorem scenario_5_8_40_one_snippet:
  "fst (provideReferences (scenarioEnv matchedText) queryUri queryPosition) =
     Returned (Some [specLocation (scenarioEnv matchedText) matchedText (hit Confirmed ''/w/a.c'' 5 2),
                     specLocation (scenarioEnv matchedText) matchedText (hit Confirmed ''/w/a.c'' 8 4),
                     specLocation (scenarioEnv matchedText) matchedText (hit Confirmed ''/w/a.c'' 40 0)])
   \<and> map window (publishedSnippets (snd (provideReferences (scenarioEnv matchedText) queryUri queryPosition)))
       = [(30, 50)]"
proof -
  let ?env = "scenarioEnv matchedText"
  let ?hs = "[hit Confirmed ''/w/a.c'' 5 2, hit Confirmed ''/w/a.c'' 8 4, hit Confirmed ''/w/a.c'' 40 0]"
  have rd: "readFileSync ?env ''/w/a.c'' = Some hundredLines"
    by (simp add: scenarioEnv_def exampleEnv_def)
  have wf: "workspaceFolders ?env = Some [''file:///w'']"
    by (simp add: scenarioEnv_def exampleEnv_def)
  have w: "hitWindow ?env (hit Confirmed ''/w/a.c'' l c) = specWindow l 100" for l c
    by (simp add: hitWindow_def linesOf_def rd hit_def hundredLines_length)
  have "\<exists>st. forEach ?env matchedText ?hs initialLoopState = Inr st"
    by (rule forEach_returns [OF wf]) (auto simp add: hit_def rd domI)
  then obtain st where st: "forEach ?env matchedText ?hs initialLoopState = Inr st" ..
  have sr: "sendRequest ?env = Inr (Some (scenarioResponse matchedText))"
    by (simp add: scenarioEnv_def exampleEnv_def)
  have pr: "provideReferences ?env queryUri queryPosition =
           (Returned (Some (locationsResult st)),
            beforeResponse queryUri queryPosition @ cleared @
            [SetReferencedSymbolSnippet (refs st), PanelViewShown (scenarioResponse matchedText)])"
  proof (rule provideReferences_completed [OF sr])
    show "\<not> tokenCancellationRequested ?env" "\<not> referencesCancellationRequested ?env"
      by (simp_all add: scenarioEnv_def exampleEnv_def)
    show "\<not> isCanceled (scenarioResponse matchedText)"
      "referenceInfos (scenarioResponse matchedText) \<noteq> []"
      by (simp_all add: scenarioResponse_def)
    show "forEach ?env (text (scenarioResponse matchedText))
            (referenceInfos (scenarioResponse matchedText)) initialLoopState = Inr st"
      using st by (simp add: scenarioResponse_def)
  qed
  have ty: "type (hit ty f l c) = ty" for ty f l c
    by (simp add: hit_def)
  have locs: "locationsResult st = map (specLocation ?env matchedText) ?hs"
    using forEach_locations [OF st] by (simp add: initialLoopState_def ty)
  have wins: "map window (refs st) = [(30, 50)]"
    using forEach_windows [OF st] by (simp add: initialLoopState_def ty w specWindow_def)
  show ?thesis
    by (simp add: pr locs wins publishedSnippets_completed)
qed

text \<open>
  The claim as first stated has two records, the first for the hit at line 5. With the
  matched text \<open>foo\<close> the call leaves one record, with the window \<open>(30, 50)\<close>.
\<close>

theorem scenario_5_8_40_not_two_snippets:
  "length (publishedSnippets (snd (provideReferences (scenarioEnv ''foo'') queryUri queryPosition))) \<noteq> 2
   \<and> map window (publishedSnippets (snd (provideReferences (scenarioEnv ''foo'') queryUri queryPosition)))
       = [(30, 50)]"
  by code_simp

text \<open>
  C2. A request that is rejected with an error that is not a recognised cancellation
  (here the protocol's internal error, code \<open>-32603\<close>): the error is rethrown from the
  \<^verbatim>\<open>catch\<close> clause, and the effects of the call end with the request. Both
  listeners were subscribed; neither is disposed, and the progress bar is not reset.
\<close>

theorem rethrown_error_skips_cleanup:
  "provideReferences (rethrowEnv False) queryUri queryPosition =
     (Threw (ResponseError (- 32603)),
      [CancelCurrentReferenceRequest NewRequest, TokenListenerSubscribed,
       RequestCanceledListenerSubscribed,
       SendRequest \<lparr>newName = [], position = \<lparr>line = 5, character = 2\<rparr>,
                    textDocument = \<lparr>TextDocumentIdentifier.uri = ''file:///w/a.c''\<rparr>\<rparr>])
   \<and> ResetProgressBar \<notin> set (snd (provideReferences (rethrowEnv False) queryUri queryPosition))
   \<and> TokenListenerDisposed \<notin> set (snd (provideReferences (rethrowEnv False) queryUri queryPosition))
   \<and> RequestCanceledListenerDisposed \<notin> set (snd (provideReferences (rethrowEnv False) queryUri queryPosition))"
  by (simp add: provideReferences_def rethrowEnv_def exampleEnv_def isCancellation_def
      beforeResponse_def queryUri_def queryPosition_def)

text \<open>
  C3. When the request is rejected with a \<^verbatim>\<open>ResponseError\<close> whose code is
  \<open>RequestCancelled\<close> or \<open>ServerCancelled\<close>, the provider returns undefined after
  resetting the references, and no error reaches the caller; when it is rejected with
  anything else, that same error is what the call throws.
\<close>

theorem cancellation_codes_recognised_others_rethrown:
  assumes "sendRequest env = Inl e"
  shows "if (\<exists>code. e = ResponseError code \<and> (code = RequestCancelled env \<or> code = ServerCancelled env))
         then provideReferences env d p = (Returned None, beforeResponse d p @ cleared @ [ReferencesReset])
         else provideReferences env d p = (Threw e, beforeResponse d p)"
proof (cases "isCancellation env e")
  case True
  then have ex: "\<exists>code. e = ResponseError code \<and> (code = RequestCancelled env \<or> code = ServerCancelled env)"
    by (cases e) (simp_all add: isCancellation_def)
  from assms True have "provideReferences env d p = (Returned None, beforeResponse d p @ cleared @ [ReferencesReset])"
    by (intro provideReferences_cancelled) auto
  with ex show ?thesis by simp
next
  case False
  then have nex: "\<not> (\<exists>code. e = ResponseError code \<and> (code = RequestCancelled env \<or> code = ServerCancelled env))"
    by (auto simp add: isCancellation_def)
  from assms False have "provideReferences env d p = (Threw e, beforeResponse d p)"
    by (rule provideReferences_rethrow)
  with nex show ?thesis by simp
qed

theorem cancellation_codes_recognised_others_rethrown_witness:
  "fst (provideReferences (exampleEnv Map.empty (Inl (ResponseError (- 32802))) False False)
          queryUri queryPosition) = Returned None
   \<and> fst (provideReferences (exampleEnv Map.empty (Inl (ResponseError (- 32800))) False False)
          queryUri queryPosition) = Returned None
   \<and> fst (provideReferences (rethrowEnv False) queryUri queryPosition) = Threw (ResponseError (- 32603))
   \<and> fst (provideReferences (exampleEnv Map.empty (Inl (NonResponseError ''socket closed'')) False False)
          queryUri queryPosition) = Threw (NonResponseError ''socket closed'')"
  using
    cancellation_codes_recognised_others_rethrown
      [of "exampleEnv Map.empty (Inl (ResponseError (- 32802))) False False" "ResponseError (- 32802)"
          queryUri queryPosition]
    cancellation_codes_recognised_others_rethrown
      [of "exampleEnv Map.empty (Inl (ResponseError (- 32800))) False False" "ResponseError (- 32800)"
          queryUri queryPosition]
    cancellation_codes_recognised_others_rethrown
      [of "rethrowEnv False" "ResponseError (- 32603)" queryUri queryPosition]
    cancellation_codes_recognised_others_rethrown
      [of "exampleEnv Map.empty (Inl (NonResponseError ''socket closed'')) False False"
          "NonResponseError ''socket closed''" queryUri queryPosition]
  by (simp add: example_fields rethrowEnv_def)

text \<open>
  C4, as amended. When the request settles without an error other than a recognised
  cancellation, and the local token was cancelled (by either listener), or a recognised
  cancellation was caught, or the response carries \<open>isCanceled\<close> (with or without
  hits), then the provider returns undefined, resets the references once as its last
  effect, never shows the panel view and leaves no snippet record.
\<close>

theorem cancellation_resets_and_returns_undefined:
  assumes "\<forall>e. sendRequest env = Inl e \<longrightarrow>
             (\<exists>code. e = ResponseError code \<and> (code = RequestCancelled env \<or> code = ServerCancelled env))"
    and "tokenCancellationRequested env \<or> referencesCancellationRequested env
         \<or> (\<exists>e. sendRequest env = Inl e)
         \<or> (\<exists>r. sendRequest env = Inr (Some r) \<and> isCanceled r)"
  shows "provideReferences env d p =
           (Returned None,
            beforeResponse d p @
            [ResetProgressBar, TokenListenerDisposed, RequestCanceledListenerDisposed,
             SetReferencedSymbolSnippet [], ReferencesReset])
         \<and> (\<forall>r. PanelViewShown r \<notin> set (snd (provideReferences env d p)))
         \<and> publishedSnippets (snd (provideReferences env d p)) = []"
proof -
  have "isCancellation env e" if "sendRequest env = Inl e" for e
    using assms(1) that by (auto simp add: isCancellation_def)
  then have pr: "provideReferences env d p =
      (Returned None, beforeResponse d p @ cleared @ [ReferencesReset])"
    using assms(2) by (rule provideReferences_cancelled)
  have "PanelViewShown r \<notin> set (beforeResponse d p @ cleared @ [ReferencesReset])" for r
    by (simp add: beforeResponse_def cleared_def)
  with pr show ?thesis
    by (simp add: publishedSnippets_cancelled) (simp add: cleared_def)
qed

theorem cancellation_resets_and_returns_undefined_witness:
  "fst (provideReferences (clusterEnv True) queryUri queryPosition) = Returned None
   \<and> last (snd (provideReferences (clusterEnv True) queryUri queryPosition)) = ReferencesReset
   \<and> fst (provideReferences (exampleEnv Map.empty (Inl (ResponseError (- 32802))) False False)
          queryUri queryPosition) = Returned None
   \<and> fst (provideReferences
          (exampleEnv Map.empty
             (Inr (Some (candidatesResponse [hit Confirmed ''/w/a.c'' 40 0] True))) False False)
          queryUri queryPosition) = Returned None"
proof -
  let ?e1 = "clusterEnv True"
  let ?e2 = "exampleEnv Map.empty (Inl (ResponseError (- 32802))) False False"
  let ?e3 = "exampleEnv Map.empty
               (Inr (Some (candidatesResponse [hit Confirmed ''/w/a.c'' 40 0] True))) False False"
  have a1: "\<forall>e. sendRequest ?e1 = Inl e \<longrightarrow>
              (\<exists>code. e = ResponseError code \<and> (code = RequestCancelled ?e1 \<or> code = ServerCancelled ?e1))"
    by (simp add: clusterEnv_def example_fields)
  have b1: "tokenCancellationRequested ?e1 \<or> referencesCancellationRequested ?e1
         \<or> (\<exists>e. sendRequest ?e1 = Inl e)
         \<or> (\<exists>r. sendRequest ?e1 = Inr (Some r) \<and> isCanceled r)"
    by (simp add: clusterEnv_def example_fields)
  have a2: "\<forall>e. sendRequest ?e2 = Inl e \<longrightarrow>
              (\<exists>code. e = ResponseError code \<and> (code = RequestCancelled ?e2 \<or> code = ServerCancelled ?e2))"
    by (simp add: example_fields)
  have b2: "tokenCancellationRequested ?e2 \<or> referencesCancellationRequested ?e2
         \<or> (\<exists>e. sendRequest ?e2 = Inl e)
         \<or> (\<exists>r. sendRequest ?e2 = Inr (Some r) \<and> isCanceled r)"
    by (simp add: example_fields)
  have a3: "\<forall>e. sendRequest ?e3 = Inl e \<longrightarrow>
              (\<exists>code. e = ResponseError code \<and> (code = RequestCancelled ?e3 \<or> code = ServerCancelled ?e3))"
    by (simp add: example_fields)
  have b3: "tokenCancellationRequested ?e3 \<or> referencesCancellationRequested ?e3
         \<or> (\<exists>e. sendRequest ?e3 = Inl e)
         \<or> (\<exists>r. sendRequest ?e3 = Inr (Some r) \<and> isCanceled r)"
    by (simp add: example_fields candidatesResponse_def)
  from cancellation_resets_and_returns_undefined [OF a1 b1, of queryUri queryPosition]
    cancellation_resets_and_returns_undefined [OF a2 b2, of queryUri queryPosition]
    cancellation_resets_and_returns_undefined [OF a3 b3, of queryUri queryPosition]
  show ?thesis
    by simp
qed

text \<open>
  The claim as first stated also covers a cancelled token together with a request that
  fails with another error. There the error is rethrown: the call does not return
  undefined and the references are not reset.
\<close>

theorem token_cancelled_but_request_failed:
  "tokenCancellationRequested (rethrowEnv True)
   \<and> provideReferences (rethrowEnv True) queryUri queryPosition =
       (Threw (ResponseError (- 32603)), beforeResponse queryUri queryPosition)
   \<and> fst (provideReferences (rethrowEnv True) queryUri queryPosition) \<noteq> Returned None
   \<and> ReferencesReset \<notin> set (snd (provideReferences (rethrowEnv True) queryUri queryPosition))"
  by (simp add: provideReferences_def rethrowEnv_def exampleEnv_def isCancellation_def
      beforeResponse_def)




text \<open>
  C6. For a query that is not cancelled: whenever the call returns, it returns exactly
  the locations of the confirmed hits, one for each, in the order of the response, each
  with the range from the hit's position to the position plus the length of the matched
  text on the hit's line; hits of any other classification contribute nothing. The call
  does return when the files of the confirmed hits can be read and the workspace has a
  folder.
\<close>

theorem confirmed_hits_yield_locations_in_order:
  assumes "sendRequest env = Inr (Some r)"
    and "\<not> tokenCancellationRequested env" and "\<not> referencesCancellationRequested env"
    and "\<not> isCanceled r"
  shows "(\<forall>res. fst (provideReferences env d p) = Returned res \<longrightarrow>
            res = Some (map (specLocation env (text r))
                          (filter (\<lambda>h. type h = Confirmed) (referenceInfos r))))
         \<and> ((\<forall>h \<in> set (referenceInfos r). type h = Confirmed \<longrightarrow> file h \<in> dom (readFileSync env))
              \<and> (\<exists>folder others. workspaceFolders env = Some (folder # others))
             \<longrightarrow> fst (provideReferences env d p) =
                   Returned (Some (map (specLocation env (text r))
                                     (filter (\<lambda>h. type h = Confirmed) (referenceInfos r)))))"
proof -
  let ?locs = "map (specLocation env (text r)) (filter (\<lambda>h. type h = Confirmed) (referenceInfos r))"
  from provideReferences_answered [OF assms, of d p]
  consider (ret) st where "forEach env (text r) (referenceInfos r) initialLoopState = Inr st"
      and "fst (provideReferences env d p) = Returned (Some (locationsResult st))"
    | (thr) e where "forEach env (text r) (referenceInfos r) initialLoopState = Inl e"
      and "fst (provideReferences env d p) = Threw e"
    by blast
  note answered = this
  have returned: "res = Some ?locs" if "fst (provideReferences env d p) = Returned res" for res
  proof (cases rule: answered)
    case (ret st)
    from forEach_locations [OF ret(1)] have "locationsResult st = ?locs"
      by (simp add: initialLoopState_def)
    with ret(2) that show ?thesis
      by simp
  next
    case (thr e)
    with that show ?thesis
      by simp
  qed
  have returns: "fst (provideReferences env d p) = Returned (Some ?locs)"
    if readable: "\<forall>h \<in> set (referenceInfos r). type h = Confirmed \<longrightarrow> file h \<in> dom (readFileSync env)"
      and folder: "\<exists>folder others. workspaceFolders env = Some (folder # others)"
  proof -
    from folder obtain folder others where f: "workspaceFolders env = Some (folder # others)"
      by blast
    have "\<exists>st. forEach env (text r) (referenceInfos r) initialLoopState = Inr st"
      using readable by (intro forEach_returns [OF f]) blast
    then obtain st0 where st0: "forEach env (text r) (referenceInfos r) initialLoopState = Inr st0" ..
    show ?thesis
    proof (cases rule: answered)
      case (ret st)
      from forEach_locations [OF ret(1)] have "locationsResult st = ?locs"
        by (simp add: initialLoopState_def)
      with ret(2) show ?thesis
        by simp
    next
      case (thr e)
      with st0 show ?thesis
        by simp
    qed
  qed
  from returned returns show ?thesis
    by blast
qed

theorem confirmed_hits_yield_locations_in_order_witness:
  "fst (provideReferences (clusterEnv False) queryUri queryPosition) =
     Returned (Some (map (specLocation (clusterEnv False) ''foo'')
                       [hit Confirmed ''/w/a.c'' 15 1, hit Confirmed ''/w/a.c'' 40 0,
                        hit Confirmed ''/w/b.c'' 45 3, hit Confirmed ''/w/a.c'' 80 7]))
   \<and> fst (provideReferences noFolderEnv queryUri queryPosition) =
       Returned (Some [specLocation noFolderEnv ''foo'' (hit Confirmed ''/w/a.c'' 5 2)])"
proof -
  let ?r = "candidatesResponse [hit Confirmed ''/w/a.c'' 5 2, hit Candidate ''/w/a.c'' 40 0] False"
  have s: "sendRequest noFolderEnv = Inr (Some ?r)" and t: "\<not> tokenCancellationRequested noFolderEnv"
    and c: "\<not> referencesCancellationRequested noFolderEnv"
    by (simp_all add: noFolderEnv_def exampleEnv_def)
  have n: "\<not> isCanceled ?r"
    by (simp add: candidatesResponse_def)
  have folder: "\<exists>folder others. workspaceFolders (clusterEnv False) = Some (folder # others)"
    using clusterEnv_facts(6) by blast
  note cluster = confirmed_hits_yield_locations_in_order
                   [OF clusterEnv_facts(1-4), of queryUri queryPosition]
  from mp [OF conjunct2 [OF cluster] conjI [OF clusterEnv_facts(5) folder]]
  have one: "fst (provideReferences (clusterEnv False) queryUri queryPosition) =
     Returned (Some (map (specLocation (clusterEnv False) ''foo'')
                       [hit Confirmed ''/w/a.c'' 15 1, hit Confirmed ''/w/a.c'' 40 0,
                        hit Confirmed ''/w/b.c'' 45 3, hit Confirmed ''/w/a.c'' 80 7]))"
    by (simp add: clusterResponse_def hit_fields)
  note bare = confirmed_hits_yield_locations_in_order [OF s t c n, of queryUri queryPosition]
  from mp [OF spec [OF conjunct1 [OF bare]] noFolderEnv_returns]
  have "fst (provideReferences noFolderEnv queryUri queryPosition) =
          Returned (Some (map (specLocation noFolderEnv (text ?r))
                            (filter (\<lambda>h. type h = Confirmed) (referenceInfos ?r))))"
    by (simp only: noFolderEnv_returns)
  then have two: "fst (provideReferences noFolderEnv queryUri queryPosition) =
       Returned (Some [specLocation noFolderEnv ''foo'' (hit Confirmed ''/w/a.c'' 5 2)])"
    by (simp add: candidatesResponse_def hit_fields)
  from one two show ?thesis ..
qed

text \<open>
  C7, as amended. For a query that is not cancelled, the snippet records are never more
  than the confirmed hits; when the call returns, their windows are those the cursor
  rule selects from the windows of the confirmed hits, starting from the cursor \<open>0\<close>
  (a window is emitted only when it starts strictly after the cursor, which then moves
  to its end), and when it throws there is no record; and, provided every confirmed
  hit's line is at most ten past the number of lines of its file as read (so that its
  window does not end before it starts), the windows of the records are pairwise
  disjoint with strictly increasing start lines.
\<close>

theorem snippets_follow_cursor_rule:
  assumes "sendRequest env = Inr (Some r)"
    and "\<not> tokenCancellationRequested env" and "\<not> referencesCancellationRequested env"
    and "\<not> isCanceled r"
  shows "length (publishedSnippets (snd (provideReferences env d p)))
           \<le> length (filter (\<lambda>h. type h = Confirmed) (referenceInfos r))
         \<and> map window (publishedSnippets (snd (provideReferences env d p)))
             = (case fst (provideReferences env d p) of
                  Returned res \<Rightarrow>
                    specEmit 0 (map (hitWindow env) (filter (\<lambda>h. type h = Confirmed) (referenceInfos r)))
                | Threw e \<Rightarrow> [])
         \<and> ((\<forall>h \<in> set (referenceInfos r). type h = Confirmed \<longrightarrow>
                 int (line (ReferenceInfo.position h)) \<le> int (length (linesOf env (file h))) + 10)
             \<longrightarrow> sorted_wrt (\<lambda>a b. endLine a < startLine b \<and> startLine a < startLine b)
                   (publishedSnippets (snd (provideReferences env d p))))"
proof -
  let ?hs = "filter (\<lambda>h. type h = Confirmed) (referenceInfos r)"
  let ?pub = "publishedSnippets (snd (provideReferences env d p))"
  let ?emit = "specEmit 0 (map (hitWindow env) ?hs)"
  from provideReferences_answered [OF assms, of d p]
  consider (ret) st where "forEach env (text r) (referenceInfos r) initialLoopState = Inr st"
      and "fst (provideReferences env d p) = Returned (Some (locationsResult st))"
      and "?pub = refs st"
    | (thr) e where "fst (provideReferences env d p) = Threw e" and "?pub = []"
    by blast
  note answered = this
  have wins: "map window ?pub = (case fst (provideReferences env d p) of Returned res \<Rightarrow> ?emit | Threw e \<Rightarrow> [])"
  proof (cases rule: answered)
    case (ret st)
    from forEach_windows [OF ret(1)] have "map window (refs st) = ?emit"
      by (simp add: initialLoopState_def)
    with ret(2,3) show ?thesis
      by simp
  next
    case (thr e)
    then show ?thesis
      by simp
  qed
  have some: "?pub = [] \<or> map window ?pub = ?emit"
  proof (cases rule: answered)
    case (ret st)
    from forEach_windows [OF ret(1)] have "map window (refs st) = ?emit"
      by (simp add: initialLoopState_def)
    with ret(3) show ?thesis
      by simp
  next
    case (thr e)
    then show ?thesis
      by simp
  qed
  have len: "length ?pub \<le> length ?hs"
  proof -
    from some show ?thesis
    proof
      assume "?pub = []" then show ?thesis by simp
    next
      assume w: "map window ?pub = ?emit"
      have "length (map window ?pub) \<le> length (map (hitWindow env) ?hs)"
        unfolding w by (rule specEmit_length)
      then show ?thesis by simp
    qed
  qed
  have sorted: "sorted_wrt (\<lambda>a b. endLine a < startLine b \<and> startLine a < startLine b) ?pub"
    if wf: "\<forall>h \<in> set (referenceInfos r). type h = Confirmed \<longrightarrow>
                 int (line (ReferenceInfo.position h)) \<le> int (length (linesOf env (file h))) + 10"
  proof -
    from some show ?thesis
    proof
      assume "?pub = []" then show ?thesis by simp
    next
      assume w: "map window ?pub = ?emit"
      have "s \<le> e" if "(s, e) \<in> set (map (hitWindow env) ?hs)" for s e
      proof -
        from that obtain h where h: "h \<in> set (referenceInfos r)" "type h = Confirmed"
          and se: "hitWindow env h = (s, e)"
          by auto
        from wf h have "int (line (ReferenceInfo.position h)) \<le> int (length (linesOf env (file h))) + 10"
          by simp
        with se show ?thesis
          by (auto simp add: hitWindow_def specWindow_def)
      qed
      then have "sorted_wrt (\<lambda>a b. snd a < fst b \<and> fst a < fst b) (map window ?pub)"
        unfolding w by (rule specEmit_sorted)
      then show ?thesis
        by (simp add: sorted_wrt_map window_def)
    qed
  qed
  from len wins sorted show ?thesis
    by blast
qed

theorem snippets_follow_cursor_rule_witness:
  "map window (publishedSnippets (snd (provideReferences (clusterEnv False) queryUri queryPosition)))
     = [(5, 25), (30, 50), (70, 90)]
   \<and> sorted_wrt (\<lambda>a b. endLine a < startLine b \<and> startLine a < startLine b)
        (publishedSnippets (snd (provideReferences (clusterEnv False) queryUri queryPosition)))"
proof -
  have len: "length (linesOf (clusterEnv False) f) = 100" if "f = ''/w/a.c'' \<or> f = ''/w/b.c''" for f
    unfolding clusterEnv_def using that by (intro hundredLines_linesOf) auto
  have wf: "\<forall>h \<in> set (referenceInfos clusterResponse). type h = Confirmed \<longrightarrow>
              int (line (ReferenceInfo.position h)) \<le> int (length (linesOf (clusterEnv False) (file h))) + 10"
    by (simp add: clusterResponse_def hit_fields len)
  have w: "hitWindow (clusterEnv False) (hit ty f l c) = specWindow l 100"
    if "f = ''/w/a.c'' \<or> f = ''/w/b.c''" for ty f l c
    using that by (simp add: hitWindow_def hit_fields len)
  from snippets_follow_cursor_rule [OF clusterEnv_facts(1-4), of queryUri queryPosition] wf
  show ?thesis
    by (simp add: clusterEnv_returns clusterResponse_def hit_fields w specWindow_def)
qed

text \<open>
  Without the proviso the start lines need not increase: two confirmed hits at lines 50
  and 16 of a file that has five lines when it is read give the windows \<open>(40, 5)\<close> and
  \<open>(6, 5)\<close>, both emitted.
\<close>

theorem stale_file_start_lines_decrease:
  "map window (publishedSnippets (snd (provideReferences staleEnv queryUri queryPosition)))
     = [(40, 5), (6, 5)]
   \<and> \<not> sorted_wrt (\<lambda>a b. startLine a < startLine b)
         (publishedSnippets (snd (provideReferences staleEnv queryUri queryPosition)))"
  by code_simp

text \<open>
  C8. For a confirmed hit at line \<open>L\<close> in a file that reads as \<open>N\<close> lines, the
  callback computes the window from \<open>max 0 (L - 10)\<close> to \<open>min N (L + 10)\<close>: when the
  window is emitted, these are the record's start and end lines, the snippet is that
  slice of the file's lines, and the cursor moves to the end line. The window lies
  within the file's lines and spans at most 20 of them.
\<close>

theorem snippet_window_clamped:
  assumes "type h = Confirmed"
    and "readFileSync env (file h) = Some fileContent"
    and "workspaceFolders env = Some (folder # others)"
    and "L = int (line (ReferenceInfo.position h))"
    and "N = int (length (split_newline fileContent))"
  shows "\<exists>st'. forEachBody env t h st = Inr st'
           \<and> (if max 0 (L - 10) > preventOverlappingSnippet st
               then (\<exists>rec. refs st' = refs st @ [rec]
                      \<and> startLine rec = max 0 (L - 10)
                      \<and> endLine rec = min N (L + 10)
                      \<and> snippet rec = join_newline (slice (max 0 (L - 10)) (min N (L + 10)) (split_newline fileContent)))
                    \<and> preventOverlappingSnippet st' = min N (L + 10)
               else refs st' = refs st \<and> preventOverlappingSnippet st' = preventOverlappingSnippet st)
           \<and> 0 \<le> max 0 (L - 10) \<and> min N (L + 10) \<le> N
           \<and> min N (L + 10) - max 0 (L - 10) \<le> 20"
proof -
  have w: "hitWindow env h = (max 0 (L - 10), min N (L + 10))"
    using assms(2,4,5) by (simp add: hitWindow_def specWindow_def linesOf_def)
  have bounds: "0 \<le> max 0 (L - 10) \<and> min N (L + 10) \<le> N \<and> min N (L + 10) - max 0 (L - 10) \<le> 20"
    by auto
  show ?thesis
  proof (cases "max 0 (L - 10) > preventOverlappingSnippet st")
    case True
    then have "fst (hitWindow env h) > preventOverlappingSnippet st"
      by (simp add: w)
    from forEachBody_emitted [OF assms(1,2) this assms(3), of t] True bounds show ?thesis
      by (simp add: w)
  next
    case False
    then have "\<not> fst (hitWindow env h) > preventOverlappingSnippet st"
      by (simp add: w)
    from forEachBody_suppressed [OF assms(1,2) this, of t] False bounds show ?thesis
      by simp
  qed
qed

theorem snippet_window_clamped_witness:
  "\<exists>st'. forEachBody (scenarioEnv ''foo'') ''foo'' (hit Confirmed ''/w/a.c'' 95 0) initialLoopState = Inr st'
      \<and> (\<exists>rec. refs st' = [rec] \<and> startLine rec = 85 \<and> endLine rec = 100)
      \<and> preventOverlappingSnippet st' = 100"
proof -
  let ?h = "hit Confirmed ''/w/a.c'' 95 0"
  have a: "type ?h = Confirmed"
    by (simp add: hit_fields)
  have b: "readFileSync (scenarioEnv ''foo'') (file ?h) = Some hundredLines"
    by (simp add: hit_fields scenarioEnv_facts)
  have c: "(95::int) = int (line (ReferenceInfo.position ?h))"
    by (simp add: hit_fields)
  have d: "(100::int) = int (length (split_newline hundredLines))"
    by (simp add: hundredLines_length)
  from snippet_window_clamped [OF a b scenarioEnv_facts(2) c d, of "''foo''" initialLoopState]
  show ?thesis
    by (auto simp add: initialLoopState_def)
qed

text \<open>
  C9. When the URI string of a hit's file is the URI of the first workspace folder,
  then a separator, then a remainder, the relative path computed for the hit is that
  remainder: joining the folder's URI and the relative path with the separator gives
  back the URI of the file. This is the relative path stored in the snippet record the
  callback pushes.
\<close>

theorem relative_path_round_trip:
  assumes "type h = Confirmed"
    and "readFileSync env (file h) = Some fileContent"
    and "workspaceFolders env = Some (root # others)"
    and "max 0 (int (line (ReferenceInfo.position h)) - 10) > preventOverlappingSnippet st"
    and "Uri_file env (file h) = root @ separator # rest"
  shows "root @ separator # getRelativePathFromUri env root (file h) = Uri_file env (file h)
         \<and> (\<exists>st'. forEachBody env t h st = Inr st'
               \<and> relativePath (last (refs st')) = getRelativePathFromUri env root (file h)
               \<and> root @ separator # relativePath (last (refs st')) = Uri_file env (file h))"
proof -
  have rel: "getRelativePathFromUri env root (file h) = rest"
    using assms(5) by (simp add: getRelativePathFromUri_def substring_def)
  have "fst (hitWindow env h) > preventOverlappingSnippet st"
    using assms(4) by (simp add: hitWindow_def specWindow_def)
  from forEachBody_emitted [OF assms(1,2) this assms(3), of t] rel assms(5) show ?thesis
    by simp
qed

theorem relative_path_round_trip_witness:
  "''file:///w'' @ CHR ''/'' # getRelativePathFromUri (scenarioEnv ''foo'') ''file:///w'' ''/w/a.c''
     = ''file:///w/a.c''
   \<and> getRelativePathFromUri (scenarioEnv ''foo'') ''file:///w'' ''/w/a.c'' = ''a.c''"
proof -
  let ?h = "hit Confirmed ''/w/a.c'' 40 0"
  have a: "type ?h = Confirmed"
    by (simp add: hit_fields)
  have b: "readFileSync (scenarioEnv ''foo'') (file ?h) = Some hundredLines"
    by (simp add: hit_fields scenarioEnv_facts)
  have c: "max 0 (int (line (ReferenceInfo.position ?h)) - 10) > preventOverlappingSnippet initialLoopState"
    by (simp add: hit_fields initialLoopState_def)
  have d: "Uri_file (scenarioEnv ''foo'') (file ?h) = ''file:///w'' @ CHR ''/'' # ''a.c''"
    by (simp add: hit_fields scenarioEnv_facts)
  from relative_path_round_trip [OF a b scenarioEnv_facts(2) c d, of "''foo''"]
  show ?thesis
    by (simp add: hit_fields scenarioEnv_facts)
qed

text \<open>
  C10. A confirmed hit at a line of at most 10, in a file that can be read, is pushed as
  a location and changes nothing else: no snippet record is added and the cursor stays,
  whatever hits were processed before it, and also when it is the first.
\<close>

theorem hits_in_first_lines_never_emit:
  assumes "forEach env t earlier initialLoopState = Inr st"
    and "type h = Confirmed"
    and "line (ReferenceInfo.position h) \<le> 10"
    and "readFileSync env (file h) = Some fileContent"
  shows "forEachBody env t h st =
           Inr (st\<lparr>locationsResult := locationsResult st @ [specLocation env t h]\<rparr>)"
proof -
  have "0 \<le> preventOverlappingSnippet st"
    using forEach_cursor_nonneg [OF assms(1)] by (simp add: initialLoopState_def)
  moreover have "fst (hitWindow env h) = 0"
    using assms(3) by (simp add: hitWindow_def specWindow_def)
  ultimately have "\<not> fst (hitWindow env h) > preventOverlappingSnippet st"
    by simp
  from forEachBody_suppressed [OF assms(2,4) this] show ?thesis .
qed

theorem hits_in_first_lines_never_emit_witness:
  "(\<exists>st'. forEachBody (scenarioEnv ''foo'') ''foo'' (hit Confirmed ''/w/a.c'' 5 2) initialLoopState = Inr st'
       \<and> refs st' = [] \<and> length (locationsResult st') = 1)
   \<and> (\<exists>st st'. forEach (scenarioEnv ''foo'') ''foo'' [hit Confirmed ''/w/a.c'' 40 0] initialLoopState = Inr st
       \<and> forEachBody (scenarioEnv ''foo'') ''foo'' (hit Confirmed ''/w/a.c'' 10 0) st = Inr st'
       \<and> refs st' = refs st \<and> length (locationsResult st') = 2)"
proof -
  let ?env = "scenarioEnv ''foo''"
  have first: "forEach ?env ''foo'' [] initialLoopState = Inr initialLoopState"
    by simp
  have a: "type (hit Confirmed ''/w/a.c'' l c) = Confirmed" for l c
    by (simp add: hit_fields)
  have b: "readFileSync ?env (file (hit Confirmed ''/w/a.c'' l c)) = Some hundredLines" for l c
    by (simp add: hit_fields scenarioEnv_facts)
  have l5: "line (ReferenceInfo.position (hit Confirmed ''/w/a.c'' 5 2)) \<le> 10"
    and l10: "line (ReferenceInfo.position (hit Confirmed ''/w/a.c'' 10 0)) \<le> 10"
    by (simp_all add: hit_fields)
  have "\<exists>st. forEach ?env ''foo'' [hit Confirmed ''/w/a.c'' 40 0] initialLoopState = Inr st"
    by (rule forEach_returns [OF scenarioEnv_facts(2)]) (simp add: hit_fields scenarioEnv_facts domI)
  then obtain st where st: "forEach ?env ''foo'' [hit Confirmed ''/w/a.c'' 40 0] initialLoopState = Inr st" ..
  from forEach_locations [OF st] have locs: "length (locationsResult st) = 1"
    by (simp add: initialLoopState_def hit_fields)
  from hits_in_first_lines_never_emit [OF first a l5 b]
  have one: "\<exists>st'. forEachBody ?env ''foo'' (hit Confirmed ''/w/a.c'' 5 2) initialLoopState = Inr st'
       \<and> refs st' = [] \<and> length (locationsResult st') = 1"
    by (simp add: initialLoopState_def)
  from hits_in_first_lines_never_emit [OF st a l10 b] locs
  have "forEachBody ?env ''foo'' (hit Confirmed ''/w/a.c'' 10 0) st =
          Inr (st\<lparr>locationsResult := locationsResult st @ [specLocation ?env ''foo'' (hit Confirmed ''/w/a.c'' 10 0)]\<rparr>)"
    by simp
  with st locs have two: "\<exists>st st'. forEach ?env ''foo'' [hit Confirmed ''/w/a.c'' 40 0] initialLoopState = Inr st
       \<and> forEachBody ?env ''foo'' (hit Confirmed ''/w/a.c'' 10 0) st = Inr st'
       \<and> refs st' = refs st \<and> length (locationsResult st') = 2"
    by (intro exI [of _ st] exI [of _ "st\<lparr>locationsResult := locationsResult st @ [specLocation ?env ''foo'' (hit Confirmed ''/w/a.c'' 10 0)]\<rparr>"]) simp
  from one two show ?thesis ..
qed

end
